theory Spec2Isabelle
  imports Complex_Main
begin

section \<open>Platform values\<close>

text \<open>
  The routes and the middleware are TypeScript on the Next.js request and response
  objects. The parts of the platform they touch are modelled here:
  \<^item> the numbers of the code are integers that a double holds exactly (counts, limits,
    timestamps). \<open>String(n)\<close> of such a number is its decimal text below \<open>10^21\<close> and the
    exponent notation from there on: the significant digits, a point after the first when
    there are more, and \<open>e+\<close> with the exponent (\<open>numberToString\<close>);
  \<^item> \<open>Math.ceil(x / d)\<close> of integral \<open>x\<close> and positive \<open>d\<close> is the integer ceiling of the
    quotient (\<open>ceilDiv\<close>); timestamps are integral milliseconds, far inside the range
    where the floating-point quotient rounds to the same integer;
  \<^item> header names are case-insensitive: \<open>Headers.set\<close> and \<open>Headers.get\<close> work on the
    lower-cased name (\<open>headerName\<close>);
  \<^item> a JavaScript value that may be \<open>undefined\<close> or \<open>null\<close> is an \<open>option\<close>; a string is
    truthy when it is present and not empty.
\<close>

fun digitsOf :: "nat \<Rightarrow> string" where
  "digitsOf n =
     (if n < 10 then [''0123456789'' ! n]
      else digitsOf (n div 10) @ [''0123456789'' ! (n mod 10)])"

declare digitsOf.simps [simp del]

definition exponentNotation :: "nat \<Rightarrow> string" where
  "exponentNotation n =
     (let digits = digitsOf n;
          significant = rev (dropWhile (\<lambda>c. c = CHR ''0'') (rev digits));
          mantissa = (case significant of
                        [] \<Rightarrow> []
                      | d # ds \<Rightarrow> (if ds = [] then [d] else d # CHR ''.'' # ds))
      in mantissa @ ''e+'' @ digitsOf (length digits - 1))"

definition numberToString :: "int \<Rightarrow> string" where
  "numberToString i =
     (let magnitude = nat \<bar>i\<bar>;
          digits = (if magnitude < 10 ^ 21 then digitsOf magnitude
                    else exponentNotation magnitude)
      in if i < 0 then CHR ''-'' # digits else digits)"

definition ceilDiv :: "int \<Rightarrow> int \<Rightarrow> int" where
  "ceilDiv x d = - ((- x) div d)"

definition toLowerAscii :: "char \<Rightarrow> char" where
  "toLowerAscii c =
     (case map_of (zip ''ABCDEFGHIJKLMNOPQRSTUVWXYZ'' ''abcdefghijklmnopqrstuvwxyz'') c of
        Some l \<Rightarrow> l
      | None \<Rightarrow> c)"

definition headerName :: "string \<Rightarrow> string" where
  "headerName n = map toLowerAscii n"

definition truthy :: "string option \<Rightarrow> bool" where
  "truthy v = (case v of None \<Rightarrow> False | Some s \<Rightarrow> s \<noteq> [])"

text \<open>\<open>a || b\<close> on values that are strings or undefined.\<close>

definition orElse :: "string option \<Rightarrow> string option \<Rightarrow> string option" where
  "orElse a b = (if truthy a then a else b)"

text \<open>\<open>s.split(sep)\<close> for a one-character separator: never an empty array.\<close>

fun split :: "char \<Rightarrow> string \<Rightarrow> string list" where
  "split sep [] = [[]]"
| "split sep (c # cs) =
     (if c = sep then [] # split sep cs
      else (case split sep cs of
              [] \<Rightarrow> [[c]]
            | p # ps \<Rightarrow> (c # p) # ps))"

text \<open>
  \<open>s.trim()\<close>: header values are byte strings, and the white space and line terminators
  of JavaScript among the bytes are TAB, LF, VT, FF, CR, SPACE and NBSP.
\<close>

definition isWhiteSpace :: "char \<Rightarrow> bool" where
  "isWhiteSpace c = ((of_char c :: nat) \<in> {9, 10, 11, 12, 13, 32, 160})"

definition trim :: "string \<Rightarrow> string" where
  "trim s = rev (dropWhile isWhiteSpace (rev (dropWhile isWhiteSpace s)))"

section \<open>Requests and responses\<close>

datatype json =
    JString string
  | JNumber int
  | JBool bool
  | JNull
  | JObject "(string \<times> json) list"

text \<open>
  The options of \<open>response.cookies.set(name, value, options)\<close>, and a \<open>File\<close> of a
  multipart form: its \<open>size\<close> is the number of its bytes.
\<close>

record CookieOptions =
  httpOnly :: bool
  secure :: bool
  sameSite :: string
  maxAge :: int
  path :: string

record File =
  name :: string
  type :: string
  content :: "nat list"

definition fileSize :: "File \<Rightarrow> int" where
  "fileSize f = int (length (content f))"

text \<open>
  A request: \<open>nextUrl.pathname\<close>, the headers (keyed by lower-cased name), the cookies,
  the result of \<open>request.json()\<close> as the login route reads it (\<open>None\<close> when the promise
  rejects; a field is \<open>None\<close> when it is absent) and the result of
  \<open>request.formData()\<close> with its \<open>photo\<close> field (\<open>None\<close> when the promise rejects, \<open>Some None\<close>
  when the form has no such field).
\<close>

record LoginRequest =
  email :: "string option"
  password :: "string option"

record NextRequest =
  pathname :: string
  headers :: "string \<rightharpoonup> string"
  cookies :: "string \<rightharpoonup> string"
  jsonBody :: "LoginRequest option"
  formPhoto :: "File option option"

record NextResponse =
  status :: int
  responseHeaders :: "string \<rightharpoonup> string"
  responseCookies :: "(string \<times> string \<times> CookieOptions) list"
  body :: json

text \<open>
  \<open>NextResponse.json(body, {status})\<close>, which sets the content type, and
  \<open>response.headers.set\<close> and \<open>.get\<close>.
\<close>

definition NextResponse_json :: "json \<Rightarrow> int \<Rightarrow> NextResponse" where
  "NextResponse_json b s =
     \<lparr>status = s, responseHeaders = [''content-type'' \<mapsto> ''application/json''],
      responseCookies = [], body = b\<rparr>"

definition headers_set :: "NextResponse \<Rightarrow> string \<Rightarrow> string \<Rightarrow> NextResponse" where
  "headers_set response n v =
     response\<lparr>responseHeaders := (responseHeaders response)(headerName n \<mapsto> v)\<rparr>"

definition headers_get :: "NextResponse \<Rightarrow> string \<Rightarrow> string option" where
  "headers_get response n = responseHeaders response (headerName n)"

section \<open>The request throttle (rate limiting middleware)\<close>

record RateLimitConfig =
  windowMs :: int
  maxRequests :: int

record RateLimitRecord =
  count :: int
  resetTime :: int

type_synonym RateLimitStore = "string \<rightharpoonup> RateLimitRecord"

text \<open>
  What one call of the middleware reads from its environment: \<open>Date.now()\<close> at its start,
  \<open>Math.random()\<close>, and \<open>Date.now()\<close> as \<open>cleanupExpiredEntries\<close> reads it again when the
  sweep runs.
\<close>

record Clock =
  dateNow :: int
  mathRandom :: real
  cleanupNow :: int

definition getClientId :: "NextRequest \<Rightarrow> string option \<Rightarrow> string" where
  "getClientId request userId =
     (let forwarded = headers request ''x-forwarded-for'';
          realIp = headers request ''x-real-ip'';
          cfConnectingIp = headers request ''cf-connecting-ip'';
          first = (case forwarded of
                     None \<Rightarrow> None
                   | Some f \<Rightarrow> (case split CHR '','' f of
                                  [] \<Rightarrow> None
                                | p # ps \<Rightarrow> Some (trim p)));
          origin = (case orElse (orElse first realIp) cfConnectingIp of
                      None \<Rightarrow> ''unknown''
                    | Some s \<Rightarrow> (if s \<noteq> [] then s else ''unknown''))
      in case userId of
           None \<Rightarrow> origin
         | Some u \<Rightarrow> (if u \<noteq> [] then ''user:'' @ u else origin))"

definition addRateLimitHeaders :: "NextResponse \<Rightarrow> int \<Rightarrow> int \<Rightarrow> int \<Rightarrow> NextResponse" where
  "addRateLimitHeaders response limit remaining resetTime' =
     headers_set
       (headers_set
          (headers_set response ''X-RateLimit-Limit'' (numberToString limit))
          ''X-RateLimit-Remaining'' (numberToString remaining))
       ''X-RateLimit-Reset'' (numberToString (ceilDiv resetTime' 1000))"

definition cleanupExpiredEntries :: "int \<Rightarrow> RateLimitStore \<Rightarrow> RateLimitStore" where
  "cleanupExpiredEntries now store =
     (\<lambda>key. case store key of
              None \<Rightarrow> None
            | Some record \<Rightarrow> (if now > resetTime record then None else Some record))"

text \<open>The key of a request: \<open>`${request.nextUrl.pathname}:${clientId}`\<close>.\<close>

definition rateLimitKey :: "(NextRequest \<Rightarrow> string option) option \<Rightarrow> NextRequest \<Rightarrow> string" where
  "rateLimitKey getUserId request =
     (let userId = (case getUserId of None \<Rightarrow> None | Some g \<Rightarrow> g request);
          clientId = getClientId request userId
      in pathname request @ '':'' @ clientId)"

text \<open>The response of the branch that refuses the request.\<close>

definition tooManyRequests :: "RateLimitConfig \<Rightarrow> RateLimitRecord \<Rightarrow> int \<Rightarrow> NextResponse" where
  "tooManyRequests config record now =
     (let response = NextResponse_json
            (JObject [(''error'', JString ''Too many requests''),
                      (''message'', JString ''Rate limit exceeded. Please try again later.''),
                      (''retryAfter'', JNumber (ceilDiv (resetTime record - now) 1000))])
            429;
          response = addRateLimitHeaders response (maxRequests config) 0 (resetTime record)
      in headers_set response ''Retry-After''
           (numberToString (ceilDiv (resetTime record - now) 1000)))"

text \<open>
  The middleware that \<open>rateLimit(config, getUserId)\<close> returns, with the module's store
  passed in and returned. The record is read before the sweep, as in the source, and the
  branches work on that reading. \<open>getUserId\<close> and the handler are functions that return:
  when one of them throws, the middleware throws and there is no response to speak of.
\<close>

definition rateLimit ::
  "RateLimitConfig \<Rightarrow> (NextRequest \<Rightarrow> string option) option \<Rightarrow> Clock \<Rightarrow> RateLimitStore \<Rightarrow>
   NextRequest \<Rightarrow> (NextRequest \<Rightarrow> NextResponse) \<Rightarrow> NextResponse \<times> RateLimitStore" where
  "rateLimit config getUserId clock store request handler =
     (let key = rateLimitKey getUserId request;
          now = dateNow clock;
          record = store key;
          store1 = (if mathRandom clock < 0.01
                    then cleanupExpiredEntries (cleanupNow clock) store else store);
          newRecord =
            (addRateLimitHeaders (handler request) (maxRequests config)
               (maxRequests config - 1) (now + windowMs config),
             store1(key \<mapsto> \<lparr>count = 1, resetTime = now + windowMs config\<rparr>))
      in case record of
           None \<Rightarrow> newRecord
         | Some r \<Rightarrow>
             if now > resetTime r then newRecord
             else if count r \<ge> maxRequests config
             then (tooManyRequests config r now, store1)
             else
               (let r' = r\<lparr>count := count r + 1\<rparr> in
                (addRateLimitHeaders (handler request) (maxRequests config)
                   (maxRequests config - count r') (resetTime r'),
                 store1(key \<mapsto> r'))))"

text \<open>The presets of the source (\<open>RateLimitPresets\<close>).\<close>

definition RateLimitPresets_auth :: RateLimitConfig where
  "RateLimitPresets_auth = \<lparr>windowMs = 15 * 60 * 1000, maxRequests = 5\<rparr>"

definition RateLimitPresets_api :: RateLimitConfig where
  "RateLimitPresets_api = \<lparr>windowMs = 15 * 60 * 1000, maxRequests = 100\<rparr>"

definition RateLimitPresets_upload :: RateLimitConfig where
  "RateLimitPresets_upload = \<lparr>windowMs = 60 * 60 * 1000, maxRequests = 10\<rparr>"

definition RateLimitPresets_deploy :: RateLimitConfig where
  "RateLimitPresets_deploy = \<lparr>windowMs = 24 * 60 * 60 * 1000, maxRequests = 5\<rparr>"

definition RateLimitPresets_admin :: RateLimitConfig where
  "RateLimitPresets_admin = \<lparr>windowMs = 60 * 60 * 1000, maxRequests = 50\<rparr>"


text \<open>The store after the sweep that a call may run.\<close>

definition afterSweep :: "Clock \<Rightarrow> RateLimitStore \<Rightarrow> RateLimitStore" where
  "afterSweep clock store =
     (if mathRandom clock < 0.01 then cleanupExpiredEntries (cleanupNow clock) store else store)"

section \<open>Local file storage\<close>

text \<open>
  The file system as the storage utility uses it: the directories that exist, the bytes
  of each file by path, and the paths at which the platform refuses to create a
  directory or a file (a name too long, a missing directory, no permission).
  \<open>fs.mkdir(dir, {recursive: true})\<close> and \<open>fs.writeFile(path, data)\<close> fail at a refused path:
  \<open>None\<close> is the rejected promise.
\<close>

record FileSystem =
  directories :: "string set"
  files :: "string \<rightharpoonup> nat list"
  refused :: "string set"

definition mkdir :: "string \<Rightarrow> FileSystem \<Rightarrow> FileSystem option" where
  "mkdir dir fs =
     (if dir \<in> refused fs then None
      else Some (fs\<lparr>directories := insert dir (directories fs)\<rparr>))"

definition writeFile :: "string \<Rightarrow> nat list \<Rightarrow> FileSystem \<Rightarrow> FileSystem option" where
  "writeFile filePath data fs =
     (if filePath \<in> refused fs then None
      else Some (fs\<lparr>files := (files fs)(filePath \<mapsto> data)\<rparr>))"

text \<open>
  Node's \<open>path\<close> module on POSIX. \<open>path.join\<close> puts a slash between its arguments that
  are not empty and normalises the result: \<open>normalizeString\<close> reads the segments between
  the slashes, drops the empty ones and \<open>.\<close>, and lets \<open>..\<close> take back the segment before
  it (above the start of a relative path \<open>..\<close> is kept, above the root it is dropped); an
  absolute path keeps its leading slash and a trailing slash is kept. \<open>path.extname\<close>
  follows the documentation of Node: the extension runs from the last dot of the last
  portion of the path to its end, trailing slashes left out; it is empty when that
  portion has no dot, when its only dot is its first character, and when the portion is
  \<open>..\<close>.
\<close>

fun joinSegments :: "string list \<Rightarrow> string" where
  "joinSegments [] = []"
| "joinSegments [p] = p"
| "joinSegments (p # q # qs) = p @ ''/'' @ joinSegments (q # qs)"

fun normalizeString :: "bool \<Rightarrow> string list \<Rightarrow> string list \<Rightarrow> string list" where
  "normalizeString allowAboveRoot [] res = rev res"
| "normalizeString allowAboveRoot (segment # segments) res =
     (if segment = [] \<or> segment = ''.''
      then normalizeString allowAboveRoot segments res
      else if segment = ''..''
      then (case res of
              [] \<Rightarrow> normalizeString allowAboveRoot segments
                      (if allowAboveRoot then [''..''] else [])
            | r # rs \<Rightarrow>
                if r = ''..''
                then normalizeString allowAboveRoot segments
                       (if allowAboveRoot then ''..'' # res else res)
                else normalizeString allowAboveRoot segments rs)
      else normalizeString allowAboveRoot segments (segment # res))"

definition normalize :: "string \<Rightarrow> string" where
  "normalize p =
     (let isAbsolute = (take 1 p = ''/'');
          trailingSeparator = (take 1 (rev p) = ''/'');
          normal = joinSegments (normalizeString (\<not> isAbsolute) (split CHR ''/'' p) [])
      in if normal = []
         then (if isAbsolute then ''/'' else if trailingSeparator then ''./'' else ''.'')
         else (if isAbsolute then ''/'' else []) @ normal
                @ (if trailingSeparator then ''/'' else []))"

definition pathJoin :: "string list \<Rightarrow> string" where
  "pathJoin args =
     (let joined = joinSegments (filter (\<lambda>arg. arg \<noteq> []) args)
      in if joined = [] then ''.'' else normalize joined)"

definition lastPortion :: "string \<Rightarrow> string" where
  "lastPortion p =
     rev (takeWhile (\<lambda>c. c \<noteq> CHR ''/'') (dropWhile (\<lambda>c. c = CHR ''/'') (rev p)))"

definition extname :: "string \<Rightarrow> string" where
  "extname p =
     (let portion = lastPortion p;
          afterDot = takeWhile (\<lambda>c. c \<noteq> CHR ''.'') (rev portion)
      in if CHR ''.'' \<in> set portion \<and> portion \<noteq> ''..''
            \<and> length afterDot + 1 \<noteq> length portion
         then CHR ''.'' # rev afterDot
         else [])"

text \<open>\<open>buffer.toString('hex')\<close>: two lower-case hexadecimal digits for each byte.\<close>

definition hexByte :: "nat \<Rightarrow> string" where
  "hexByte b = [''0123456789abcdef'' ! ((b mod 256) div 16), ''0123456789abcdef'' ! (b mod 16)]"

definition toHex :: "nat list \<Rightarrow> string" where
  "toHex bs = concat (map hexByte bs)"

datatype FileKind = resume | photo

text \<open>
  What the storage utility and the routes read from the process: the working directory,
  \<open>Date.now()\<close>, the eight bytes of \<open>crypto.randomBytes(8)\<close>, and the variables
  \<open>JWT_SECRET\<close> and \<open>NODE_ENV\<close> of \<open>process.env\<close>.
\<close>

record Process =
  cwd :: string
  now :: int
  randomBytes :: "nat list"
  JWT_SECRET :: "string option"
  NODE_ENV :: "string option"

definition UPLOAD_BASE_DIR :: "Process \<Rightarrow> string" where
  "UPLOAD_BASE_DIR process = pathJoin [cwd process, ''public'', ''uploads'']"

text \<open>The loop of \<open>ensureUploadDirs\<close>: a directory whose \<open>mkdir\<close> fails is passed over.\<close>

fun ensureDirs :: "string list \<Rightarrow> FileSystem \<Rightarrow> FileSystem" where
  "ensureDirs [] fs = fs"
| "ensureDirs (dir # dirs) fs =
     (case mkdir dir fs of
        None \<Rightarrow> ensureDirs dirs fs
      | Some fs' \<Rightarrow> ensureDirs dirs fs')"

definition ensureUploadDirs :: "Process \<Rightarrow> FileSystem \<Rightarrow> FileSystem" where
  "ensureUploadDirs process fs =
     (let dirs = [UPLOAD_BASE_DIR process,
                  pathJoin [UPLOAD_BASE_DIR process, ''resumes''],
                  pathJoin [UPLOAD_BASE_DIR process, ''photos'']]
      in ensureDirs dirs fs)"

text \<open>
  The unique file name of an upload. The source also computes \<open>baseName\<close>, the file name
  without its extension, and never uses it.
\<close>

definition uniqueFileName :: "Process \<Rightarrow> string \<Rightarrow> string \<Rightarrow> string" where
  "uniqueFileName process fileName userId =
     (let timestamp = now process;
          randomId = toHex (randomBytes process);
          extension = extname fileName
      in userId @ ''_'' @ numberToString timestamp @ ''_'' @ randomId @ extension)"

text \<open>
  \<open>uploadFileLocally\<close> returns the public URL, or \<open>None\<close> when \<open>fs.writeFile\<close> rejects and
  the function throws; the file system is the one it leaves in either case.
\<close>

definition uploadFileLocally ::
  "Process \<Rightarrow> FileSystem \<Rightarrow> nat list \<Rightarrow> string \<Rightarrow> string \<Rightarrow> FileKind \<Rightarrow>
   string option \<times> FileSystem" where
  "uploadFileLocally process fs fileBuffer fileName userId kind =
     (let fs1 = ensureUploadDirs process fs;
          unique = uniqueFileName process fileName userId;
          typeDir = (if kind = resume then ''resumes'' else ''photos'');
          filePath = pathJoin [UPLOAD_BASE_DIR process, typeDir, unique]
      in case writeFile filePath fileBuffer fs1 of
           None \<Rightarrow> (None, fs1)
         | Some fs2 \<Rightarrow> (Some (''/uploads/'' @ typeDir @ ''/'' @ unique), fs2))"

section \<open>The photo upload route\<close>

text \<open>
  The services the route imports and this repository's files do not hold: the token
  verifier (\<open>Some None\<close> when it returns no user id) and the database services. A service
  that throws or rejects is \<open>None\<close>; the route's \<open>catch\<close> answers it.
\<close>

record PortfolioPhoto =
  photoId :: string
  photoUrl :: string
  uploadedAt :: string

record UploadServices =
  verifyAccessToken :: "string \<Rightarrow> string option option"
  canUploadMorePhotos :: "string \<Rightarrow> bool option"
  createPortfolioPhoto :: "string \<Rightarrow> string \<Rightarrow> PortfolioPhoto option"

definition ALLOWED_TYPES :: "string list" where
  "ALLOWED_TYPES = [''image/jpeg'', ''image/png'', ''image/webp'']"

definition MAX_FILE_SIZE :: int where
  "MAX_FILE_SIZE = 5 * 1024 * 1024"

definition errorResponse :: "string \<Rightarrow> int \<Rightarrow> NextResponse" where
  "errorResponse message code = NextResponse_json (JObject [(''error'', JString message)]) code"

definition POST_photo ::
  "UploadServices \<Rightarrow> Process \<Rightarrow> FileSystem \<Rightarrow> NextRequest \<Rightarrow> NextResponse \<times> FileSystem" where
  "POST_photo services process fs request =
     (case cookies request ''accessToken'' of
        None \<Rightarrow> (errorResponse ''Authentication required'' 401, fs)
      | Some accessToken \<Rightarrow>
          if accessToken = [] then (errorResponse ''Authentication required'' 401, fs)
          else
            (case verifyAccessToken services accessToken of
               None \<Rightarrow> (errorResponse ''Internal server error'' 500, fs)
             | Some None \<Rightarrow> (errorResponse ''Invalid or expired token'' 401, fs)
             | Some (Some userId) \<Rightarrow>
                 if userId = [] then (errorResponse ''Invalid or expired token'' 401, fs)
                 else
                   (case canUploadMorePhotos services userId of
                      None \<Rightarrow> (errorResponse ''Internal server error'' 500, fs)
                    | Some canUpload \<Rightarrow>
                        if \<not> canUpload
                        then (errorResponse
                                ''Maximum photo limit reached. Users can upload up to 3 photos.''
                                403, fs)
                        else
                          (case formPhoto request of
                             None \<Rightarrow> (errorResponse ''Internal server error'' 500, fs)
                           | Some None \<Rightarrow> (errorResponse ''No file uploaded'' 400, fs)
                           | Some (Some file) \<Rightarrow>
                               if type file \<notin> set ALLOWED_TYPES
                               then (errorResponse
                                       ''Invalid file type. Allowed: JPEG, PNG, WebP'' 400, fs)
                               else if fileSize file > MAX_FILE_SIZE
                               then (errorResponse ''File too large. Maximum size: 5MB'' 400, fs)
                               else
                                 (let fileBuffer = content file;
                                      (uploaded, fs') =
                                        uploadFileLocally process fs fileBuffer (name file)
                                          userId photo
                                  in case uploaded of
                                       None \<Rightarrow> (errorResponse ''Internal server error'' 500, fs')
                                     | Some publicUrl \<Rightarrow>
                                         (case createPortfolioPhoto services userId publicUrl of
                                            None \<Rightarrow>
                                              (errorResponse ''Internal server error'' 500, fs')
                                          | Some p \<Rightarrow>
                                              (NextResponse_json
                                                 (JObject
                                                    [(''message'',
                                                      JString ''Photo uploaded successfully''),
                                                     (''photo'',
                                                      JObject
                                                        [(''id'', JString (photoId p)),
                                                         (''fileName'', JString (name file)),
                                                         (''uploadedAt'', JString (uploadedAt p)),
                                                         (''publicUrl'', JString (photoUrl p))])])
                                                 201,
                                               fs')))))))"

section \<open>The login route\<close>

text \<open>
  The user record of the database services (\<open>uid\<close> is its \<open>id\<close>) and the services the
  route imports: the lookup by email (\<open>Some None\<close> when there is no such user), the
  password check, the two token constructors and the update of the last login. Each is
  \<open>None\<close> (\<open>False\<close> for the update) when it throws or rejects, which the route's \<open>catch\<close>
  answers.
\<close>

record User =
  uid :: string
  userEmail :: string
  userName :: "string option"
  passwordHash :: "string option"
  role :: string
  isActive :: bool
  emailVerified :: bool

record LoginServices =
  findUserByEmail :: "string \<Rightarrow> User option option"
  verifyPassword :: "string \<Rightarrow> string \<Rightarrow> bool option"
  createAccessToken :: "string \<Rightarrow> string \<Rightarrow> string \<Rightarrow> string option"
  createRefreshToken :: "string \<Rightarrow> string option"
  updateUserLastLogin :: "string \<Rightarrow> bool"

definition configurationError :: NextResponse where
  "configurationError =
     errorResponse ''Server configuration error. Please contact administrator.'' 500"

definition cookieOptions :: "Process \<Rightarrow> int \<Rightarrow> CookieOptions" where
  "cookieOptions process age =
     \<lparr>httpOnly = True, secure = (NODE_ENV process = Some ''production''),
      sameSite = ''lax'', maxAge = age, path = ''/''\<rparr>"

definition cookies_set ::
  "NextResponse \<Rightarrow> string \<Rightarrow> string \<Rightarrow> CookieOptions \<Rightarrow> NextResponse" where
  "cookies_set response n v options =
     response\<lparr>responseCookies :=
       filter (\<lambda>c. fst c \<noteq> n) (responseCookies response) @ [(n, v, options)]\<rparr>"

definition loginSuccessful :: "Process \<Rightarrow> User \<Rightarrow> string \<Rightarrow> string \<Rightarrow> NextResponse" where
  "loginSuccessful process user accessToken refreshToken =
     (let response = NextResponse_json
            (JObject
               [(''message'', JString ''Login successful''),
                (''user'',
                 JObject
                   [(''id'', JString (uid user)),
                    (''email'', JString (userEmail user)),
                    (''name'', (case userName user of None \<Rightarrow> JNull | Some n \<Rightarrow> JString n)),
                    (''emailVerified'', JBool (emailVerified user))])])
            200;
          response = cookies_set response ''accessToken'' accessToken
                       (cookieOptions process 3600)
      in cookies_set response ''refreshToken'' refreshToken (cookieOptions process 604800))"

definition emailAndPasswordRequired :: NextResponse where
  "emailAndPasswordRequired = errorResponse ''Email and password are required'' 400"

definition POST_login :: "LoginServices \<Rightarrow> Process \<Rightarrow> NextRequest \<Rightarrow> NextResponse" where
  "POST_login services process request =
     (case jsonBody request of
        None \<Rightarrow> errorResponse ''Internal server error'' 500
      | Some loginRequest \<Rightarrow>
          (case email loginRequest of
             None \<Rightarrow> emailAndPasswordRequired
           | Some bodyEmail \<Rightarrow>
               (case password loginRequest of
                  None \<Rightarrow> emailAndPasswordRequired
                | Some bodyPassword \<Rightarrow>
                    if bodyEmail = [] \<or> bodyPassword = [] then emailAndPasswordRequired
                    else if \<not> truthy (JWT_SECRET process) then configurationError
                    else
                      (case findUserByEmail services bodyEmail of
                         None \<Rightarrow> errorResponse ''Internal server error'' 500
                       | Some None \<Rightarrow> errorResponse ''Invalid credentials'' 401
                       | Some (Some user) \<Rightarrow>
                           (case passwordHash user of
                              None \<Rightarrow> errorResponse ''Invalid credentials'' 401
                            | Some hash \<Rightarrow>
                                if hash = [] then errorResponse ''Invalid credentials'' 401
                                else
                                  (case verifyPassword services bodyPassword hash of
                                     None \<Rightarrow> errorResponse ''Internal server error'' 500
                                   | Some isValidPassword \<Rightarrow>
                                       if \<not> isValidPassword
                                       then errorResponse ''Invalid credentials'' 401
                                       else if \<not> isActive user
                                       then errorResponse ''Account is deactivated'' 403
                                       else
                                         (case createAccessToken services (uid user)
                                                 (userEmail user) (role user) of
                                            None \<Rightarrow> errorResponse ''Internal server error'' 500
                                          | Some accessToken \<Rightarrow>
                                              (case createRefreshToken services (uid user) of
                                                 None \<Rightarrow>
                                                   errorResponse ''Internal server error'' 500
                                               | Some refreshToken \<Rightarrow>
                                                   if \<not> updateUserLastLogin services (uid user)
                                                   then errorResponse ''Internal server error'' 500
                                                   else loginSuccessful process user accessToken
                                                          refreshToken))))))))"

section \<open>The first forwarded-for address\<close>

text \<open>
  The specification's "first forwarded-for address" of a request, written from its words
  and not from the code: the text of the forwarded-for header up to its first comma,
  without the white space around it.
\<close>

definition firstForwardedFor :: "NextRequest \<Rightarrow> string option" where
  "firstForwardedFor request =
     (case headers request ''x-forwarded-for'' of
        None \<Rightarrow> None
      | Some f \<Rightarrow> Some (trim (takeWhile (\<lambda>c. c \<noteq> CHR '','') f)))"

section \<open>Example inputs\<close>

text \<open>Concrete requests, handlers and clock readings on which the theorems are run.\<close>

definition loginAttempt :: NextRequest where
  "loginAttempt =
     \<lparr>pathname = ''/api/auth/login'',
      headers = [''x-forwarded-for'' \<mapsto> ''203.0.113.7, 10.0.0.1''],
      cookies = Map.empty, jsonBody = None, formPhoto = None\<rparr>"

definition okHandler :: "NextRequest \<Rightarrow> NextResponse" where
  "okHandler request = NextResponse_json (JObject [(''ok'', JBool True)]) 200"

definition clockAt :: "int \<Rightarrow> Clock" where
  "clockAt t = \<lparr>dateNow = t, mathRandom = 1 / 2, cleanupNow = t\<rparr>"

definition spoofedAttempt :: NextRequest where
  "spoofedAttempt =
     \<lparr>pathname = ''/api/auth/login'',
      headers = [''x-forwarded-for'' \<mapsto> '',10.0.0.1'', ''x-real-ip'' \<mapsto> ''9.9.9.9''],
      cookies = Map.empty, jsonBody = None, formPhoto = None\<rparr>"

definition proxiedAttempt :: NextRequest where
  "proxiedAttempt =
     \<lparr>pathname = ''/api/auth/login'',
      headers = [''cf-connecting-ip'' \<mapsto> ''198.51.100.4''],
      cookies = Map.empty, jsonBody = None, formPhoto = None\<rparr>"

definition uploadServices :: "bool \<Rightarrow> UploadServices" where
  "uploadServices quotaLeft =
     \<lparr>verifyAccessToken =
        (\<lambda>token. if token = ''token-of-u1'' then Some (Some ''u1'') else Some None),
      canUploadMorePhotos = (\<lambda>userId. Some quotaLeft),
      createPortfolioPhoto = (\<lambda>userId url.
        Some \<lparr>photoId = ''p1'', photoUrl = url, uploadedAt = ''2026-01-01T00:00:00.000Z''\<rparr>)\<rparr>"

definition serverProcess :: "string option \<Rightarrow> Process" where
  "serverProcess secret =
     \<lparr>cwd = ''/app'', now = 1700000000000,
      randomBytes = [1, 35, 69, 103, 137, 171, 205, 239],
      JWT_SECRET = secret, NODE_ENV = Some ''production''\<rparr>"

definition emptyFileSystem :: FileSystem where
  "emptyFileSystem = \<lparr>directories = {}, files = Map.empty, refused = {}\<rparr>"

definition photoUpload :: "File \<Rightarrow> NextRequest" where
  "photoUpload file =
     \<lparr>pathname = ''/api/upload/photo'', headers = Map.empty,
      cookies = [''accessToken'' \<mapsto> ''token-of-u1''],
      jsonBody = None, formPhoto = Some (Some file)\<rparr>"

definition smallPng :: File where
  "smallPng = \<lparr>name = ''me.png'', type = ''image/png'', content = [137, 80, 78, 71]\<rparr>"

definition twelveMegabyteJpeg :: File where
  "twelveMegabyteJpeg =
     \<lparr>name = ''huge.jpg'', type = ''image/jpeg'', content = replicate (12 * 1024 * 1024) 0\<rparr>"

definition loginServices :: LoginServices where
  "loginServices =
     \<lparr>findUserByEmail = (\<lambda>address.
        if address = ''ada@example.org''
        then Some (Some \<lparr>uid = ''u1'', userEmail = ''ada@example.org'', userName = Some ''Ada'',
                          passwordHash = Some ''scrypt:salt:key'', role = ''user'',
                          isActive = True, emailVerified = True\<rparr>)
        else Some None),
      verifyPassword = (\<lambda>candidate hash. Some (candidate = ''correct horse'')),
      createAccessToken = (\<lambda>userId address userRole. Some ''access-token''),
      createRefreshToken = (\<lambda>userId. Some ''refresh-token''),
      updateUserLastLogin = (\<lambda>userId. True)\<rparr>"

definition loginOfAda :: NextRequest where
  "loginOfAda =
     \<lparr>pathname = ''/api/auth/login'', headers = Map.empty, cookies = Map.empty,
      jsonBody = Some \<lparr>email = Some ''ada@example.org'', password = Some ''correct horse''\<rparr>,
      formPhoto = None\<rparr>"

section \<open>Lemmas on the platform values and on the branches of the throttle\<close>

lemma ceilDiv_ceiling: "ceilDiv x d = \<lceil>real_of_int x / real_of_int d\<rceil>"
proof -
  have "\<lceil>real_of_int x / real_of_int d\<rceil> = - \<lfloor>real_of_int (- x) / real_of_int d\<rfloor>"
    by (simp add: ceiling_def)
  also have "\<dots> = - ((- x) div d)"
    by (simp only: floor_divide_of_int_eq)
  finally show ?thesis
    by (simp add: ceilDiv_def)
qed



lemma loginAttempt_key: "rateLimitKey None loginAttempt = ''/api/auth/login:203.0.113.7''"
  by (simp add: rateLimitKey_def getClientId_def loginAttempt_def orElse_def truthy_def
      trim_def isWhiteSpace_def)

lemma rateLimit_new:
  assumes "store (rateLimitKey g request) = None \<or>
           (\<exists>r. store (rateLimitKey g request) = Some r \<and> resetTime r < dateNow clock)"
  shows "rateLimit config g clock store request handler =
           (addRateLimitHeaders (handler request) (maxRequests config)
              (maxRequests config - 1) (dateNow clock + windowMs config),
            (afterSweep clock store)(rateLimitKey g request \<mapsto>
              \<lparr>count = 1, resetTime = dateNow clock + windowMs config\<rparr>))"
  using assms by (auto simp: rateLimit_def afterSweep_def Let_def)

lemma rateLimit_exceeded:
  assumes "store (rateLimitKey g request) = Some r"
    and "dateNow clock \<le> resetTime r" and "maxRequests config \<le> count r"
  shows "rateLimit config g clock store request handler =
           (tooManyRequests config r (dateNow clock), afterSweep clock store)"
  using assms by (simp add: rateLimit_def afterSweep_def Let_def)

lemma rateLimit_increment:
  assumes "store (rateLimitKey g request) = Some r"
    and "dateNow clock \<le> resetTime r" and "count r < maxRequests config"
  shows "rateLimit config g clock store request handler =
           (addRateLimitHeaders (handler request) (maxRequests config)
              (maxRequests config - (count r + 1)) (resetTime r),
            (afterSweep clock store)(rateLimitKey g request \<mapsto> r\<lparr>count := count r + 1\<rparr>))"
  using assms by (simp add: rateLimit_def afterSweep_def Let_def)

lemma headers_get_set:
  "headers_get (headers_set response n v) m =
     (if headerName m = headerName n then Some v else headers_get response m)"
  by (simp add: headers_get_def headers_set_def)

lemma status_headers_set: "status (headers_set response n v) = status response"
  by (simp add: headers_set_def)

lemma body_headers_set: "body (headers_set response n v) = body response"
  by (simp add: headers_set_def)

lemma headerName_Limit: "headerName ''X-RateLimit-Limit'' = ''x-ratelimit-limit''"
  by (simp add: headerName_def toLowerAscii_def)

lemma headerName_Remaining: "headerName ''X-RateLimit-Remaining'' = ''x-ratelimit-remaining''"
  by (simp add: headerName_def toLowerAscii_def)

lemma headerName_Reset: "headerName ''X-RateLimit-Reset'' = ''x-ratelimit-reset''"
  by (simp add: headerName_def toLowerAscii_def)

lemma headerName_RetryAfter: "headerName ''Retry-After'' = ''retry-after''"
  by (simp add: headerName_def toLowerAscii_def)

lemma numberToString_0: "numberToString 0 = ''0''"
  by (simp add: numberToString_def Let_def digitsOf.simps)

lemmas headerNames = headerName_Limit headerName_Remaining headerName_Reset headerName_RetryAfter

lemma tooManyRequests_retryAfter:
  "headers_get (tooManyRequests config r t) ''Retry-After'' =
     Some (numberToString (ceilDiv (resetTime r - t) 1000))"
  by (simp add: tooManyRequests_def Let_def headers_get_set)

lemma addRateLimitHeaders_get:
  "headers_get (addRateLimitHeaders response limit remaining reset) ''X-RateLimit-Limit'' =
     Some (numberToString limit)"
  "headers_get (addRateLimitHeaders response limit remaining reset) ''X-RateLimit-Remaining'' =
     Some (numberToString remaining)"
  "headers_get (addRateLimitHeaders response limit remaining reset) ''X-RateLimit-Reset'' =
     Some (numberToString (ceilDiv reset 1000))"
  by (simp_all add: addRateLimitHeaders_def headers_get_set headerNames)

lemma status_addRateLimitHeaders:
  "status (addRateLimitHeaders response limit remaining reset) = status response"
  by (simp add: addRateLimitHeaders_def status_headers_set)

lemma body_addRateLimitHeaders:
  "body (addRateLimitHeaders response limit remaining reset) = body response"
  by (simp add: addRateLimitHeaders_def body_headers_set)

lemma body_tooManyRequests:
  "body (tooManyRequests config r t) =
     JObject [(''error'', JString ''Too many requests''),
              (''message'', JString ''Rate limit exceeded. Please try again later.''),
              (''retryAfter'', JNumber (ceilDiv (resetTime r - t) 1000))]"
  by (simp add: tooManyRequests_def Let_def body_headers_set body_addRateLimitHeaders
      NextResponse_json_def)

lemma tooManyRequests_headers:
  "status (tooManyRequests config r t) = 429"
  "headers_get (tooManyRequests config r t) ''X-RateLimit-Limit'' =
     Some (numberToString (maxRequests config))"
  "headers_get (tooManyRequests config r t) ''X-RateLimit-Remaining'' = Some ''0''"
  "headers_get (tooManyRequests config r t) ''X-RateLimit-Reset'' =
     Some (numberToString (ceilDiv (resetTime r) 1000))"
  by (simp_all add: tooManyRequests_def Let_def headers_get_set headerNames
      addRateLimitHeaders_get status_headers_set status_addRateLimitHeaders
      NextResponse_json_def numberToString_0)

lemma rateLimit_cases:
  obtains
    (new) "store (rateLimitKey g request) = None \<or>
           (\<exists>r. store (rateLimitKey g request) = Some r \<and> resetTime r < dateNow clock)"
  | (exceeded) r where "store (rateLimitKey g request) = Some r"
      "dateNow clock \<le> resetTime r" "maxRequests config \<le> count r"
  | (increment) r where "store (rateLimitKey g request) = Some r"
      "dateNow clock \<le> resetTime r" "count r < maxRequests config"
  by (cases "store (rateLimitKey g request)") force+

section \<open>The throttle's decision\<close>

text \<open>
  Claim C4, as amended. On each call of the middleware for a key, with \<open>now\<close> the call's
  clock reading. When the store has no record for the key, or the record's window has
  expired, which is when \<open>now\<close> is after the record's reset time and not when it is equal
  to it, a fresh record with count 1 and a reset time one window ahead is stored and the
  request is allowed: the response has the handler's status and body and reports
  \<open>maxRequests - 1\<close> remaining. Otherwise, when the record's count has reached
  \<open>maxRequests\<close>, the request is refused: status 429, \<open>Retry-After\<close> and the body's
  \<open>retryAfter\<close> equal to \<open>ceil((resetTime - now) / 1000)\<close>, 0 remaining, and the store as the
  sweep left it. Otherwise the count is incremented and the request is allowed: the
  response has the handler's status and body and reports \<open>maxRequests - count\<close> remaining,
  the count being the incremented one. What is reported is read from the headers
  \<open>X-RateLimit-Limit\<close>, \<open>X-RateLimit-Remaining\<close> and \<open>X-RateLimit-Reset\<close> of the response.
\<close>

theorem admit_decision:
  fixes config :: RateLimitConfig and g and clock :: Clock and store :: RateLimitStore
    and request and handler
  defines "key \<equiv> rateLimitKey g request"
    and "t \<equiv> dateNow clock"
    and "response \<equiv> fst (rateLimit config g clock store request handler)"
    and "store' \<equiv> snd (rateLimit config g clock store request handler)"
  shows
    "(store key = None \<or> (\<exists>r. store key = Some r \<and> resetTime r < t) \<longrightarrow>
        store' = (afterSweep clock store)(key \<mapsto>
                   \<lparr>count = 1, resetTime = t + windowMs config\<rparr>)
        \<and> status response = status (handler request)
        \<and> body response = body (handler request)
        \<and> headers_get response ''X-RateLimit-Limit'' =
            Some (numberToString (maxRequests config))
        \<and> headers_get response ''X-RateLimit-Remaining'' =
            Some (numberToString (maxRequests config - 1))
        \<and> headers_get response ''X-RateLimit-Reset'' =
            Some (numberToString \<lceil>real_of_int (t + windowMs config) / 1000\<rceil>))
     \<and> (\<forall>r. store key = Some r \<and> t \<le> resetTime r \<and> maxRequests config \<le> count r \<longrightarrow>
        store' = afterSweep clock store
        \<and> status response = 429
        \<and> body response =
            JObject [(''error'', JString ''Too many requests''),
                     (''message'', JString ''Rate limit exceeded. Please try again later.''),
                     (''retryAfter'', JNumber \<lceil>real_of_int (resetTime r - t) / 1000\<rceil>)]
        \<and> headers_get response ''Retry-After'' =
            Some (numberToString \<lceil>real_of_int (resetTime r - t) / 1000\<rceil>)
        \<and> headers_get response ''X-RateLimit-Limit'' =
            Some (numberToString (maxRequests config))
        \<and> headers_get response ''X-RateLimit-Remaining'' = Some ''0''
        \<and> headers_get response ''X-RateLimit-Reset'' =
            Some (numberToString \<lceil>real_of_int (resetTime r) / 1000\<rceil>))
     \<and> (\<forall>r. store key = Some r \<and> t \<le> resetTime r \<and> count r < maxRequests config \<longrightarrow>
        store' = (afterSweep clock store)(key \<mapsto> r\<lparr>count := count r + 1\<rparr>)
        \<and> status response = status (handler request)
        \<and> body response = body (handler request)
        \<and> headers_get response ''X-RateLimit-Limit'' =
            Some (numberToString (maxRequests config))
        \<and> headers_get response ''X-RateLimit-Remaining'' =
            Some (numberToString (maxRequests config - (count r + 1)))
        \<and> headers_get response ''X-RateLimit-Reset'' =
            Some (numberToString \<lceil>real_of_int (resetTime r) / 1000\<rceil>))"
proof -
  have ceil: "\<lceil>real_of_int x / 1000\<rceil> = ceilDiv x 1000" for x
    using ceilDiv_ceiling [of x 1000] by simp
  have opened: "store' = (afterSweep clock store)(key \<mapsto>
                   \<lparr>count = 1, resetTime = t + windowMs config\<rparr>)
        \<and> status response = status (handler request)
        \<and> body response = body (handler request)
        \<and> headers_get response ''X-RateLimit-Limit'' =
            Some (numberToString (maxRequests config))
        \<and> headers_get response ''X-RateLimit-Remaining'' =
            Some (numberToString (maxRequests config - 1))
        \<and> headers_get response ''X-RateLimit-Reset'' =
            Some (numberToString \<lceil>real_of_int (t + windowMs config) / 1000\<rceil>)"
    if "store key = None \<or> (\<exists>r. store key = Some r \<and> resetTime r < t)"
    using that unfolding key_def t_def response_def store'_def ceil
    by (simp add: rateLimit_new addRateLimitHeaders_get status_addRateLimitHeaders
        body_addRateLimitHeaders)
  have refused: "store' = afterSweep clock store
        \<and> status response = 429
        \<and> body response =
            JObject [(''error'', JString ''Too many requests''),
                     (''message'', JString ''Rate limit exceeded. Please try again later.''),
                     (''retryAfter'', JNumber \<lceil>real_of_int (resetTime r - t) / 1000\<rceil>)]
        \<and> headers_get response ''Retry-After'' =
            Some (numberToString \<lceil>real_of_int (resetTime r - t) / 1000\<rceil>)
        \<and> headers_get response ''X-RateLimit-Limit'' =
            Some (numberToString (maxRequests config))
        \<and> headers_get response ''X-RateLimit-Remaining'' = Some ''0''
        \<and> headers_get response ''X-RateLimit-Reset'' =
            Some (numberToString \<lceil>real_of_int (resetTime r) / 1000\<rceil>)"
    if "store key = Some r \<and> t \<le> resetTime r \<and> maxRequests config \<le> count r" for r
    using that unfolding key_def t_def response_def store'_def ceil
    by (simp add: rateLimit_exceeded tooManyRequests_headers tooManyRequests_retryAfter
        body_tooManyRequests)
  have counted: "store' = (afterSweep clock store)(key \<mapsto> r\<lparr>count := count r + 1\<rparr>)
        \<and> status response = status (handler request)
        \<and> body response = body (handler request)
        \<and> headers_get response ''X-RateLimit-Limit'' =
            Some (numberToString (maxRequests config))
        \<and> headers_get response ''X-RateLimit-Remaining'' =
            Some (numberToString (maxRequests config - (count r + 1)))
        \<and> headers_get response ''X-RateLimit-Reset'' =
            Some (numberToString \<lceil>real_of_int (resetTime r) / 1000\<rceil>)"
    if "store key = Some r \<and> t \<le> resetTime r \<and> count r < maxRequests config" for r
    using that unfolding key_def t_def response_def store'_def ceil
    by (simp add: rateLimit_increment addRateLimitHeaders_get status_addRateLimitHeaders
        body_addRateLimitHeaders)
  from opened refused counted show ?thesis
    by blast
qed

theorem admit_decision_witness:
  "snd (rateLimit RateLimitPresets_auth None (clockAt 1000) Map.empty loginAttempt okHandler) =
     [''/api/auth/login:203.0.113.7'' \<mapsto> \<lparr>count = 1, resetTime = 901000\<rparr>]
   \<and> headers_get
        (fst (rateLimit RateLimitPresets_auth None (clockAt 1000) Map.empty loginAttempt
           okHandler)) ''X-RateLimit-Remaining'' = Some ''4''
   \<and> headers_get
        (fst (rateLimit RateLimitPresets_auth None (clockAt 1000) Map.empty loginAttempt
           okHandler)) ''X-RateLimit-Reset'' = Some ''901''
   \<and> status
        (fst (rateLimit RateLimitPresets_auth None (clockAt 3000)
           [''/api/auth/login:203.0.113.7'' \<mapsto> \<lparr>count = 5, resetTime = 901000\<rparr>] loginAttempt okHandler)) = 429
   \<and> headers_get
        (fst (rateLimit RateLimitPresets_auth None (clockAt 3000)
           [''/api/auth/login:203.0.113.7'' \<mapsto> \<lparr>count = 5, resetTime = 901000\<rparr>] loginAttempt okHandler))
        ''Retry-After'' = Some ''898''
   \<and> snd (rateLimit RateLimitPresets_auth None (clockAt 3000)
        [''/api/auth/login:203.0.113.7'' \<mapsto> \<lparr>count = 5, resetTime = 901000\<rparr>] loginAttempt okHandler) =
     [''/api/auth/login:203.0.113.7'' \<mapsto> \<lparr>count = 5, resetTime = 901000\<rparr>]
   \<and> snd (rateLimit RateLimitPresets_auth None (clockAt 2000)
        [''/api/auth/login:203.0.113.7'' \<mapsto> \<lparr>count = 1, resetTime = 901000\<rparr>] loginAttempt okHandler) =
     [''/api/auth/login:203.0.113.7'' \<mapsto> \<lparr>count = 2, resetTime = 901000\<rparr>]
   \<and> headers_get
        (fst (rateLimit RateLimitPresets_auth None (clockAt 2000)
           [''/api/auth/login:203.0.113.7'' \<mapsto> \<lparr>count = 1, resetTime = 901000\<rparr>] loginAttempt okHandler))
        ''X-RateLimit-Remaining'' = Some ''3''"
  using
    admit_decision [where store = Map.empty and g = None and request = loginAttempt
      and clock = "clockAt 1000" and config = RateLimitPresets_auth and handler = okHandler]
    admit_decision [where
      store = "[''/api/auth/login:203.0.113.7'' \<mapsto> \<lparr>count = 5, resetTime = 901000\<rparr>]"
      and g = None and request = loginAttempt
      and clock = "clockAt 3000" and config = RateLimitPresets_auth and handler = okHandler]
    admit_decision [where
      store = "[''/api/auth/login:203.0.113.7'' \<mapsto> \<lparr>count = 1, resetTime = 901000\<rparr>]"
      and g = None and request = loginAttempt
      and clock = "clockAt 2000" and config = RateLimitPresets_auth and handler = okHandler]
  by (simp add: loginAttempt_key RateLimitPresets_auth_def clockAt_def afterSweep_def
      numberToString_def Let_def digitsOf.simps)

text \<open>
  Claim C4 as stated fails at the reset time itself, where the window
  \<open>[windowStart, windowResetAt)\<close> of the specification is over: for a record with count 1
  and reset time 901000, a call at 901000 does not start a fresh window with count 1. The
  code's test for expiry is \<open>now > resetTime\<close>, so the call is counted in the old window:
  the record keeps its reset time with count 2, and 3 requests remain.
\<close>

theorem call_at_reset_time_is_counted:
  "snd (rateLimit RateLimitPresets_auth None (clockAt 901000)
       [''/api/auth/login:203.0.113.7'' \<mapsto> \<lparr>count = 1, resetTime = 901000\<rparr>] loginAttempt okHandler) ''/api/auth/login:203.0.113.7'' =
     Some \<lparr>count = 2, resetTime = 901000\<rparr>
   \<and> headers_get
        (fst (rateLimit RateLimitPresets_auth None (clockAt 901000)
           [''/api/auth/login:203.0.113.7'' \<mapsto> \<lparr>count = 1, resetTime = 901000\<rparr>] loginAttempt okHandler))
        ''X-RateLimit-Remaining'' = Some ''3''"
  using rateLimit_increment [where
      store = "[''/api/auth/login:203.0.113.7'' \<mapsto> \<lparr>count = 1, resetTime = 901000\<rparr>]"
      and g = None and request = loginAttempt and r = "\<lparr>count = 1, resetTime = 901000\<rparr>"
      and clock = "clockAt 901000" and config = RateLimitPresets_auth and handler = okHandler]
  by (simp add: loginAttempt_key RateLimitPresets_auth_def clockAt_def
      addRateLimitHeaders_get numberToString_def Let_def digitsOf.simps)

section \<open>Rate limit headers\<close>

text \<open>
  Claim C8. Every response of the middleware carries the headers \<open>X-RateLimit-Limit\<close>,
  \<open>X-RateLimit-Remaining\<close> and \<open>X-RateLimit-Reset\<close>; a response that refuses the request
  (the record is in its window and its count has reached \<open>maxRequests\<close>) has status 429,
  a \<open>Retry-After\<close> header and \<open>X-RateLimit-Remaining\<close> equal to \<open>0\<close>.
\<close>

theorem rate_limit_headers:
  "headers_get (fst (rateLimit config g clock store request handler)) ''X-RateLimit-Limit'' =
     Some (numberToString (maxRequests config))
   \<and> headers_get (fst (rateLimit config g clock store request handler))
        ''X-RateLimit-Remaining'' \<noteq> None
   \<and> headers_get (fst (rateLimit config g clock store request handler))
        ''X-RateLimit-Reset'' \<noteq> None
   \<and> (\<forall>r. store (rateLimitKey g request) = Some r \<and> dateNow clock \<le> resetTime r
          \<and> maxRequests config \<le> count r
        \<longrightarrow> status (fst (rateLimit config g clock store request handler)) = 429
            \<and> headers_get (fst (rateLimit config g clock store request handler))
                 ''Retry-After'' =
                Some (numberToString (ceilDiv (resetTime r - dateNow clock) 1000))
            \<and> headers_get (fst (rateLimit config g clock store request handler))
                 ''X-RateLimit-Remaining'' = Some ''0'')"
proof -
  let ?response = "fst (rateLimit config g clock store request handler)"
  have three: "headers_get ?response ''X-RateLimit-Limit'' =
       Some (numberToString (maxRequests config))
     \<and> headers_get ?response ''X-RateLimit-Remaining'' \<noteq> None
     \<and> headers_get ?response ''X-RateLimit-Reset'' \<noteq> None"
  proof (cases rule: rateLimit_cases [where store = store and g = g and request = request
        and clock = clock and config = config])
    case new
    then show ?thesis
      by (simp add: rateLimit_new addRateLimitHeaders_get)
  next
    case (exceeded r)
    then show ?thesis
      by (simp add: rateLimit_exceeded tooManyRequests_headers)
  next
    case (increment r)
    then show ?thesis
      by (simp add: rateLimit_increment addRateLimitHeaders_get)
  qed
  have denied: "status ?response = 429
      \<and> headers_get ?response ''Retry-After'' =
          Some (numberToString (ceilDiv (resetTime r - dateNow clock) 1000))
      \<and> headers_get ?response ''X-RateLimit-Remaining'' = Some ''0''"
    if "store (rateLimitKey g request) = Some r \<and> dateNow clock \<le> resetTime r
          \<and> maxRequests config \<le> count r" for r
    using that
    by (simp add: rateLimit_exceeded tooManyRequests_headers tooManyRequests_retryAfter)
  from three denied show ?thesis
    by blast
qed

theorem rate_limit_headers_witness:
  "headers_get (fst (rateLimit RateLimitPresets_auth None (clockAt 3000)
       [''/api/auth/login:203.0.113.7'' \<mapsto> \<lparr>count = 5, resetTime = 901000\<rparr>]
       loginAttempt okHandler)) ''X-RateLimit-Limit'' = Some ''5''
   \<and> status (fst (rateLimit RateLimitPresets_auth None (clockAt 3000)
       [''/api/auth/login:203.0.113.7'' \<mapsto> \<lparr>count = 5, resetTime = 901000\<rparr>]
       loginAttempt okHandler)) = 429
   \<and> headers_get (fst (rateLimit RateLimitPresets_auth None (clockAt 3000)
       [''/api/auth/login:203.0.113.7'' \<mapsto> \<lparr>count = 5, resetTime = 901000\<rparr>]
       loginAttempt okHandler)) ''Retry-After'' = Some ''898''
   \<and> headers_get (fst (rateLimit RateLimitPresets_auth None (clockAt 3000)
       [''/api/auth/login:203.0.113.7'' \<mapsto> \<lparr>count = 5, resetTime = 901000\<rparr>]
       loginAttempt okHandler)) ''X-RateLimit-Remaining'' = Some ''0''"
  using rate_limit_headers [where
      store = "[''/api/auth/login:203.0.113.7'' \<mapsto> \<lparr>count = 5, resetTime = 901000\<rparr>]"
      and g = None and request = loginAttempt
      and clock = "clockAt 3000" and config = RateLimitPresets_auth and handler = okHandler]
  by (simp add: loginAttempt_key RateLimitPresets_auth_def clockAt_def ceilDiv_def
      numberToString_def Let_def digitsOf.simps)

section \<open>The store after a call\<close>

lemma cleanupExpiredEntries_at:
  "cleanupExpiredEntries t store k = store k \<or>
   (cleanupExpiredEntries t store k = None \<and> (\<exists>r. store k = Some r \<and> resetTime r < t))"
  by (cases "store k") (simp_all add: cleanupExpiredEntries_def)

lemma cleanupExpiredEntries_keeps:
  "store k = Some r \<Longrightarrow> t \<le> resetTime r \<Longrightarrow> cleanupExpiredEntries t store k = Some r"
  by (simp add: cleanupExpiredEntries_def)

lemma afterSweep_at:
  "afterSweep clock store k = store k \<or>
   (afterSweep clock store k = None \<and> mathRandom clock < 0.01 \<and>
    (\<exists>r. store k = Some r \<and> resetTime r < cleanupNow clock))"
  using cleanupExpiredEntries_at [of "cleanupNow clock" store k]
  by (auto simp: afterSweep_def)

lemma afterSweep_none: "0.01 \<le> mathRandom clock \<Longrightarrow> afterSweep clock store = store"
  by (simp add: afterSweep_def)

lemma afterSweep_keeps:
  "store k = Some r \<Longrightarrow> cleanupNow clock \<le> resetTime r \<Longrightarrow> afterSweep clock store k = Some r"
  by (simp add: afterSweep_def cleanupExpiredEntries_keeps)

text \<open>
  Claim C10. A call that refuses the request leaves the store as it was but for the
  sweep: when the sweep does not run the store is the same; when it runs, every key keeps
  its record or loses a record that had expired at the sweep's clock reading; the record
  of the refused request keeps its count and reset time unless the sweep finds it
  expired.
\<close>

theorem deny_leaves_store:
  assumes "store (rateLimitKey g request) = Some r"
    and "dateNow clock \<le> resetTime r"
    and "maxRequests config \<le> count r"
  shows "fst (rateLimit config g clock store request handler) =
           tooManyRequests config r (dateNow clock)
         \<and> snd (rateLimit config g clock store request handler) = afterSweep clock store
         \<and> (0.01 \<le> mathRandom clock \<longrightarrow>
              snd (rateLimit config g clock store request handler) = store)
         \<and> (cleanupNow clock \<le> resetTime r \<longrightarrow>
              snd (rateLimit config g clock store request handler) (rateLimitKey g request) =
                Some r)
         \<and> (\<forall>k. snd (rateLimit config g clock store request handler) k = store k \<or>
                (snd (rateLimit config g clock store request handler) k = None \<and>
                 mathRandom clock < 0.01 \<and>
                 (\<exists>r'. store k = Some r' \<and> resetTime r' < cleanupNow clock)))"
proof -
  have eq: "rateLimit config g clock store request handler =
      (tooManyRequests config r (dateNow clock), afterSweep clock store)"
    using assms by (rule rateLimit_exceeded)
  show ?thesis
    using afterSweep_at [of clock store] assms(1)
    by (simp add: eq afterSweep_none afterSweep_keeps)
qed

theorem deny_leaves_store_witness:
  "snd (rateLimit RateLimitPresets_auth None (clockAt 3000)
       [''/api/auth/login:203.0.113.7'' \<mapsto> \<lparr>count = 5, resetTime = 901000\<rparr>]
       loginAttempt okHandler) =
     [''/api/auth/login:203.0.113.7'' \<mapsto> \<lparr>count = 5, resetTime = 901000\<rparr>]
   \<and> snd (rateLimit RateLimitPresets_auth None
       \<lparr>dateNow = 3000, mathRandom = 1 / 1000, cleanupNow = 3001\<rparr>
       [''/api/auth/login:203.0.113.7'' \<mapsto> \<lparr>count = 5, resetTime = 901000\<rparr>,
        ''/api/upload/photo:user:u1'' \<mapsto> \<lparr>count = 2, resetTime = 2500\<rparr>]
       loginAttempt okHandler) ''/api/auth/login:203.0.113.7'' =
     Some \<lparr>count = 5, resetTime = 901000\<rparr>"
  using
    deny_leaves_store [where
      store = "[''/api/auth/login:203.0.113.7'' \<mapsto> \<lparr>count = 5, resetTime = 901000\<rparr>]"
      and g = None and request = loginAttempt and r = "\<lparr>count = 5, resetTime = 901000\<rparr>"
      and clock = "clockAt 3000" and config = RateLimitPresets_auth and handler = okHandler]
    deny_leaves_store [where
      store = "[''/api/auth/login:203.0.113.7'' \<mapsto> \<lparr>count = 5, resetTime = 901000\<rparr>,
               ''/api/upload/photo:user:u1'' \<mapsto> \<lparr>count = 2, resetTime = 2500\<rparr>]"
      and g = None and request = loginAttempt and r = "\<lparr>count = 5, resetTime = 901000\<rparr>"
      and clock = "\<lparr>dateNow = 3000, mathRandom = 1 / 1000, cleanupNow = 3001\<rparr>"
      and config = RateLimitPresets_auth and handler = okHandler]
  by (simp add: loginAttempt_key RateLimitPresets_auth_def clockAt_def afterSweep_def
      cleanupExpiredEntries_def)

text \<open>
  Claim C5, as amended. For a record of the store and one call of the middleware: when
  the call is for the record's key and arrives after the record's reset time, the record
  is replaced by a fresh one with count 1; when the call is for the record's key and
  arrives no later than the reset time, the reset time itself included, the record keeps
  its reset time and its count stays or grows by one, or the sweep removes a record that
  it finds expired at its own, later clock reading after a refusal; a call for another
  key leaves the record alone, or its sweep removes it as expired. The count of a record
  never decreases.
\<close>

theorem count_monotone_within_window:
  assumes "store k = Some r"
  shows "(k = rateLimitKey g request \<and> resetTime r < dateNow clock \<longrightarrow>
            snd (rateLimit config g clock store request handler) k =
              Some \<lparr>count = 1, resetTime = dateNow clock + windowMs config\<rparr>)
         \<and> (k = rateLimitKey g request \<and> dateNow clock \<le> resetTime r \<longrightarrow>
              (\<exists>r'. snd (rateLimit config g clock store request handler) k = Some r' \<and>
                    count r \<le> count r' \<and> count r' \<le> count r + 1 \<and>
                    resetTime r' = resetTime r) \<or>
              (snd (rateLimit config g clock store request handler) k = None \<and>
               maxRequests config \<le> count r \<and>
               mathRandom clock < 0.01 \<and> resetTime r < cleanupNow clock))
         \<and> (k \<noteq> rateLimitKey g request \<longrightarrow>
              snd (rateLimit config g clock store request handler) k = Some r \<or>
              (snd (rateLimit config g clock store request handler) k = None \<and>
               mathRandom clock < 0.01 \<and> resetTime r < cleanupNow clock))"
proof (intro conjI impI)
  assume "k = rateLimitKey g request \<and> resetTime r < dateNow clock"
  then show "snd (rateLimit config g clock store request handler) k =
      Some \<lparr>count = 1, resetTime = dateNow clock + windowMs config\<rparr>"
    using assms by (simp add: rateLimit_new)
next
  assume *: "k = rateLimitKey g request \<and> dateNow clock \<le> resetTime r"
  show "(\<exists>r'. snd (rateLimit config g clock store request handler) k = Some r' \<and>
            count r \<le> count r' \<and> count r' \<le> count r + 1 \<and> resetTime r' = resetTime r) \<or>
        (snd (rateLimit config g clock store request handler) k = None \<and>
         maxRequests config \<le> count r \<and>
         mathRandom clock < 0.01 \<and> resetTime r < cleanupNow clock)"
  proof (cases "count r < maxRequests config")
    case True
    then show ?thesis
      using assms * by (simp add: rateLimit_increment)
  next
    case False
    then have "rateLimit config g clock store request handler =
        (tooManyRequests config r (dateNow clock), afterSweep clock store)"
      using assms * by (simp add: rateLimit_exceeded)
    then show ?thesis
      using afterSweep_at [of clock store k] assms False by auto
  qed
next
  assume "k \<noteq> rateLimitKey g request"
  then have "snd (rateLimit config g clock store request handler) k = afterSweep clock store k"
    by (cases rule: rateLimit_cases [where store = store and g = g and request = request
          and clock = clock and config = config])
      (simp_all add: rateLimit_new rateLimit_exceeded rateLimit_increment)
  then show "snd (rateLimit config g clock store request handler) k = Some r \<or>
      (snd (rateLimit config g clock store request handler) k = None \<and>
       mathRandom clock < 0.01 \<and> resetTime r < cleanupNow clock)"
    using afterSweep_at [of clock store k] assms by auto
qed

theorem count_monotone_within_window_witness:
  "(\<exists>r'. snd (rateLimit RateLimitPresets_auth None (clockAt 2000)
       [''/api/auth/login:203.0.113.7'' \<mapsto> \<lparr>count = 1, resetTime = 901000\<rparr>]
       loginAttempt okHandler) ''/api/auth/login:203.0.113.7'' = Some r'
       \<and> 1 \<le> count r' \<and> count r' \<le> 2 \<and> resetTime r' = 901000)
   \<and> snd (rateLimit RateLimitPresets_auth None (clockAt 901001)
       [''/api/auth/login:203.0.113.7'' \<mapsto> \<lparr>count = 5, resetTime = 901000\<rparr>]
       loginAttempt okHandler) ''/api/auth/login:203.0.113.7'' =
     Some \<lparr>count = 1, resetTime = 1801001\<rparr>"
  using
    count_monotone_within_window [where
      store = "[''/api/auth/login:203.0.113.7'' \<mapsto> \<lparr>count = 1, resetTime = 901000\<rparr>]"
      and k = "''/api/auth/login:203.0.113.7''" and r = "\<lparr>count = 1, resetTime = 901000\<rparr>"
      and g = None and request = loginAttempt
      and clock = "clockAt 2000" and config = RateLimitPresets_auth and handler = okHandler]
    count_monotone_within_window [where
      store = "[''/api/auth/login:203.0.113.7'' \<mapsto> \<lparr>count = 5, resetTime = 901000\<rparr>]"
      and k = "''/api/auth/login:203.0.113.7''" and r = "\<lparr>count = 5, resetTime = 901000\<rparr>"
      and g = None and request = loginAttempt
      and clock = "clockAt 901001" and config = RateLimitPresets_auth and handler = okHandler]
  by (simp add: loginAttempt_key RateLimitPresets_auth_def clockAt_def)

text \<open>
  Claim C5 as stated fails at the reset time itself, where the window
  \<open>[windowStart, windowResetAt)\<close> is over: a record with count 3 and reset time 901000 is
  not replaced by a call at 901000 but incremented, to count 4 with the same reset time.
\<close>

theorem record_at_reset_time_incremented:
  "snd (rateLimit RateLimitPresets_auth None (clockAt 901000)
       [''/api/auth/login:203.0.113.7'' \<mapsto> \<lparr>count = 3, resetTime = 901000\<rparr>] loginAttempt okHandler) ''/api/auth/login:203.0.113.7'' =
     Some \<lparr>count = 4, resetTime = 901000\<rparr>"
  using rateLimit_increment [where
      store = "[''/api/auth/login:203.0.113.7'' \<mapsto> \<lparr>count = 3, resetTime = 901000\<rparr>]"
      and g = None and request = loginAttempt and r = "\<lparr>count = 3, resetTime = 901000\<rparr>"
      and clock = "clockAt 901000" and config = RateLimitPresets_auth and handler = okHandler]
  by (simp add: loginAttempt_key RateLimitPresets_auth_def clockAt_def)

section \<open>Five requests in fifteen minutes\<close>











section \<open>The client key\<close>

lemma split_first: "\<exists>ps. split sep s = takeWhile (\<lambda>c. c \<noteq> sep) s # ps"
  by (induction s) (auto split: list.splits)

lemma getClientId_origin:
  "getClientId request userId =
     (let origin =
        (case orElse (orElse (firstForwardedFor request) (headers request ''x-real-ip''))
                (headers request ''cf-connecting-ip'') of
           None \<Rightarrow> ''unknown''
         | Some s \<Rightarrow> (if s \<noteq> [] then s else ''unknown''))
      in case userId of
           None \<Rightarrow> origin
         | Some u \<Rightarrow> (if u \<noteq> [] then ''user:'' @ u else origin))"
proof -
  have eq: "(case headers request ''x-forwarded-for'' of
           None \<Rightarrow> None
         | Some f \<Rightarrow> (case split CHR '','' f of [] \<Rightarrow> None | p # ps \<Rightarrow> Some (trim p))) =
        firstForwardedFor request"
  proof (cases "headers request ''x-forwarded-for''")
    case None
    then show ?thesis by (simp add: firstForwardedFor_def)
  next
    case (Some f)
    obtain ps where "split CHR '','' f = takeWhile (\<lambda>c. c \<noteq> CHR '','') f # ps"
      using split_first by blast
    with Some show ?thesis by (simp add: firstForwardedFor_def)
  qed
  show ?thesis
    unfolding getClientId_def Let_def eq by simp
qed

text \<open>
  Claim C7, as amended. A user id that is present and not empty gives the key
  \<open>user:\<close> followed by the id. Otherwise the key is the first forwarded-for address when
  the forwarded-for header is present and that address is not empty, else the value of
  the real-IP header when present and not empty, else the value of the proxy's header
  when present and not empty, else \<open>unknown\<close>.
\<close>

theorem client_key_derivation:
  "(\<forall>u. userId = Some u \<and> u \<noteq> [] \<longrightarrow> getClientId request userId = ''user:'' @ u)
   \<and> (\<not> truthy userId \<longrightarrow>
        (\<forall>a. firstForwardedFor request = Some a \<and> a \<noteq> [] \<longrightarrow>
           getClientId request userId = a)
        \<and> (\<forall>a. \<not> truthy (firstForwardedFor request)
              \<and> headers request ''x-real-ip'' = Some a \<and> a \<noteq> [] \<longrightarrow>
            getClientId request userId = a)
        \<and> (\<forall>a. \<not> truthy (firstForwardedFor request)
              \<and> \<not> truthy (headers request ''x-real-ip'')
              \<and> headers request ''cf-connecting-ip'' = Some a \<and> a \<noteq> [] \<longrightarrow>
            getClientId request userId = a)
        \<and> (\<not> truthy (firstForwardedFor request)
              \<and> \<not> truthy (headers request ''x-real-ip'')
              \<and> \<not> truthy (headers request ''cf-connecting-ip'') \<longrightarrow>
            getClientId request userId = ''unknown''))"
  by (auto simp: getClientId_origin orElse_def truthy_def Let_def split: option.splits)

theorem client_key_derivation_witness:
  "getClientId loginAttempt (Some ''u1'') = ''user:u1''
   \<and> getClientId loginAttempt None = ''203.0.113.7''
   \<and> getClientId spoofedAttempt (Some []) = ''9.9.9.9''
   \<and> getClientId proxiedAttempt None = ''198.51.100.4''
   \<and> getClientId \<lparr>pathname = ''/'', headers = Map.empty, cookies = Map.empty,
        jsonBody = None, formPhoto = None\<rparr> None = ''unknown''"
  using
    client_key_derivation [where request = loginAttempt and userId = "Some ''u1''"]
    client_key_derivation [where request = loginAttempt and userId = None]
    client_key_derivation [where request = spoofedAttempt and userId = "Some []"]
    client_key_derivation [where request = proxiedAttempt and userId = None]
    client_key_derivation [where userId = None and request = "\<lparr>pathname = ''/'',
      headers = Map.empty, cookies = Map.empty, jsonBody = None, formPhoto = None\<rparr>"]
  by (simp add: truthy_def firstForwardedFor_def loginAttempt_def spoofedAttempt_def
      proxiedAttempt_def trim_def isWhiteSpace_def)

text \<open>
  Claim C7 as stated fails when the forwarded-for header is present and its first entry
  is empty: the key is then the value of the real-IP header.
\<close>

theorem forwarded_header_present_but_real_ip_used:
  "headers spoofedAttempt ''x-forwarded-for'' = Some '',10.0.0.1''
   \<and> getClientId spoofedAttempt None = ''9.9.9.9''"
  by (simp add: getClientId_def spoofedAttempt_def orElse_def truthy_def trim_def)

section \<open>The file system after an upload\<close>

lemma files_ensureDirs: "files (ensureDirs dirs fs) = files fs"
  by (induction dirs arbitrary: fs) (simp_all add: mkdir_def)

lemma refused_ensureDirs: "refused (ensureDirs dirs fs) = refused fs"
  by (induction dirs arbitrary: fs) (simp_all add: mkdir_def)

lemma files_ensureUploadDirs: "files (ensureUploadDirs process fs) = files fs"
  unfolding ensureUploadDirs_def Let_def by (rule files_ensureDirs)

lemma refused_ensureUploadDirs: "refused (ensureUploadDirs process fs) = refused fs"
  unfolding ensureUploadDirs_def Let_def by (rule refused_ensureDirs)

lemma uploadFileLocally_written:
  assumes "pathJoin [UPLOAD_BASE_DIR process, if kind = resume then ''resumes'' else ''photos'',
             uniqueFileName process fileName userId] \<notin> refused fs"
  shows "uploadFileLocally process fs fileBuffer fileName userId kind =
           (Some (''/uploads/'' @ (if kind = resume then ''resumes'' else ''photos'') @ ''/'' @
              uniqueFileName process fileName userId),
            (ensureUploadDirs process fs)\<lparr>files := (files fs)
              (pathJoin [UPLOAD_BASE_DIR process,
                 if kind = resume then ''resumes'' else ''photos'',
                 uniqueFileName process fileName userId] \<mapsto> fileBuffer)\<rparr>)"
  using assms
  by (simp add: uploadFileLocally_def Let_def writeFile_def refused_ensureUploadDirs
      files_ensureUploadDirs)

lemma uploadFileLocally_refused:
  assumes "pathJoin [UPLOAD_BASE_DIR process, if kind = resume then ''resumes'' else ''photos'',
             uniqueFileName process fileName userId] \<in> refused fs"
  shows "uploadFileLocally process fs fileBuffer fileName userId kind =
           (None, ensureUploadDirs process fs)"
  using assms
  by (simp add: uploadFileLocally_def Let_def writeFile_def refused_ensureUploadDirs)

lemma serverProcess_name:
  "uniqueFileName (serverProcess secret) ''me.png'' ''u1'' = ''u1_1700000000000_0123456789abcdef.png''"
  "uniqueFileName (serverProcess secret) ''../../etc/me.png'' ''u1'' = ''u1_1700000000000_0123456789abcdef.png''"
  by (simp_all add: uniqueFileName_def serverProcess_def toHex_def hexByte_def extname_def
      lastPortion_def numberToString_def Let_def digitsOf.simps)

lemma serverProcess_reads:
  "now (serverProcess secret) = 1700000000000"
  "randomBytes (serverProcess secret) = [1, 35, 69, 103, 137, 171, 205, 239]"
  by (simp_all add: serverProcess_def)

lemma serverProcess_paths:
  "UPLOAD_BASE_DIR (serverProcess secret) = ''/app/public/uploads''"
  "pathJoin [''/app/public/uploads'', ''photos'', ''u1_1700000000000_0123456789abcdef.png''] = ''/app/public/uploads/photos/u1_1700000000000_0123456789abcdef.png''"
  by (simp_all add: UPLOAD_BASE_DIR_def pathJoin_def normalize_def Let_def serverProcess_def)

lemma ALLOWED_png: "''image/png'' \<in> set ALLOWED_TYPES" "''image/jpeg'' \<in> set ALLOWED_TYPES"
  by (simp_all add: ALLOWED_TYPES_def)

lemma accepted_photo_stored_as_uploaded:
  assumes "cookies request ''accessToken'' = Some accessToken" and "accessToken \<noteq> []"
    and "verifyAccessToken services accessToken = Some (Some userId)" and "userId \<noteq> []"
    and "canUploadMorePhotos services userId = Some True"
    and "formPhoto request = Some (Some upload)"
    and "type upload \<in> set ALLOWED_TYPES"
    and "fileSize upload \<le> MAX_FILE_SIZE"
    and "pathJoin [UPLOAD_BASE_DIR process, ''photos'',
           uniqueFileName process (name upload) userId] \<notin> refused fs"
  shows "files (snd (POST_photo services process fs request))
           (pathJoin [UPLOAD_BASE_DIR process, ''photos'',
              uniqueFileName process (name upload) userId]) = Some (content upload)"
proof -
  have "uploadFileLocally process fs (content upload) (name upload) userId photo =
      (Some (''/uploads/photos/'' @ uniqueFileName process (name upload) userId),
       (ensureUploadDirs process fs)\<lparr>files := (files fs)
         (pathJoin [UPLOAD_BASE_DIR process, ''photos'',
            uniqueFileName process (name upload) userId] \<mapsto> content upload)\<rparr>)"
    using assms(9)
      uploadFileLocally_written [where process = process and kind = photo
        and fileName = "name upload" and userId = userId and fs = fs
        and fileBuffer = "content upload"]
    by simp
  with assms(1-8) show ?thesis
    by (simp add: POST_photo_def Let_def split: option.splits)
qed

section \<open>Uploads are stored as they arrive\<close>

text \<open>
  Claim C1 fails on the code. The route hands the file's own buffer to
  \<open>uploadFileLocally\<close>, which writes that buffer to disk: no encryption stands between the
  upload and the storage. For an accepted PNG of four bytes, the file under the upload
  directory holds exactly those four bytes.
\<close>

theorem photo_stored_unencrypted:
  "files (snd (POST_photo (uploadServices True) (serverProcess None) emptyFileSystem
       (photoUpload smallPng)))
     ''/app/public/uploads/photos/u1_1700000000000_0123456789abcdef.png'' =
     Some (content smallPng)
   \<and> status (fst (POST_photo (uploadServices True) (serverProcess None) emptyFileSystem
       (photoUpload smallPng))) = 201"
proof -
  have "uploadFileLocally (serverProcess None) emptyFileSystem (content smallPng)
          (name smallPng) ''u1'' photo =
      (Some (''/uploads/photos/'' @ ''u1_1700000000000_0123456789abcdef.png''),
       (ensureUploadDirs (serverProcess None) emptyFileSystem)\<lparr>files :=
          (files emptyFileSystem)(''/app/public/uploads/photos/u1_1700000000000_0123456789abcdef.png'' \<mapsto> content smallPng)\<rparr>)"
    using uploadFileLocally_written [where process = "serverProcess None" and kind = photo
        and fileName = "name smallPng" and userId = "''u1''" and fs = emptyFileSystem
        and fileBuffer = "content smallPng"]
    by (simp add: smallPng_def serverProcess_name serverProcess_paths emptyFileSystem_def)
  then show ?thesis
    by (simp add: POST_photo_def uploadServices_def photoUpload_def ALLOWED_png
        fileSize_def MAX_FILE_SIZE_def NextResponse_json_def)
      (simp add: smallPng_def MAX_FILE_SIZE_def ALLOWED_TYPES_def)
qed

section \<open>Photos over the size limit\<close>

lemma errorResponse_eq:
  "errorResponse m c = errorResponse m' c' \<longleftrightarrow> m = m' \<and> c = c'"
  by (auto simp: errorResponse_def NextResponse_json_def)

text \<open>
  Claim C6. A request that reaches the size check (an access token that verifies, quota
  left, a photo in the form, an allowed type) and whose photo is larger than 5MB is
  answered with status 400 and the error \<open>File too large. Maximum size: 5MB\<close>, and the
  file system is as before: nothing is stored. Whatever the checks before the size check
  say, a request whose photo is larger than 5MB is rejected and leaves the file system as
  it was. The code has no encryption call to make.
\<close>

theorem oversized_photo_rejected:
  "(\<forall>accessToken userId file.
      cookies request ''accessToken'' = Some accessToken \<and> accessToken \<noteq> []
      \<and> verifyAccessToken services accessToken = Some (Some userId) \<and> userId \<noteq> []
      \<and> canUploadMorePhotos services userId = Some True
      \<and> formPhoto request = Some (Some file)
      \<and> type file \<in> set ALLOWED_TYPES
      \<and> MAX_FILE_SIZE < fileSize file
      \<longrightarrow> POST_photo services process fs request =
            (errorResponse ''File too large. Maximum size: 5MB'' 400, fs))
   \<and> (\<forall>file. formPhoto request = Some (Some file) \<and> MAX_FILE_SIZE < fileSize file
        \<longrightarrow> snd (POST_photo services process fs request) = fs
            \<and> status (fst (POST_photo services process fs request)) \<in> {400, 401, 403, 500})"
  by (auto simp: POST_photo_def errorResponse_def NextResponse_json_def
      split: option.splits)

theorem oversized_photo_rejected_witness:
  "MAX_FILE_SIZE < fileSize twelveMegabyteJpeg
   \<and> POST_photo (uploadServices True) (serverProcess None) emptyFileSystem
        (photoUpload twelveMegabyteJpeg) =
      (errorResponse ''File too large. Maximum size: 5MB'' 400, emptyFileSystem)"
  using oversized_photo_rejected [where request = "photoUpload twelveMegabyteJpeg"
      and services = "uploadServices True" and process = "serverProcess None"
      and fs = emptyFileSystem]
  by (simp add: photoUpload_def uploadServices_def twelveMegabyteJpeg_def fileSize_def
      MAX_FILE_SIZE_def ALLOWED_TYPES_def)

text \<open>
  The quota check comes before the checks of the file, as the specification orders them:
  the 12MB JPEG of a user who has no quota left is rejected with status 403 and the quota
  error, and nothing is stored.
\<close>

lemma quota_checked_before_size:
  "MAX_FILE_SIZE < fileSize twelveMegabyteJpeg
   \<and> type twelveMegabyteJpeg = ''image/jpeg''
   \<and> POST_photo (uploadServices False) (serverProcess None) emptyFileSystem
        (photoUpload twelveMegabyteJpeg) =
      (errorResponse ''Maximum photo limit reached. Users can upload up to 3 photos.'' 403,
       emptyFileSystem)"
  by (simp add: POST_photo_def photoUpload_def uploadServices_def twelveMegabyteJpeg_def
      fileSize_def MAX_FILE_SIZE_def)

section \<open>The storage name\<close>

lemma lastPortion_no_slash: "CHR ''/'' \<notin> set (lastPortion p)"
  by (auto simp: lastPortion_def dest: set_takeWhileD)

lemma extname_no_slash: "CHR ''/'' \<notin> set (extname p)"
proof -
  have "set (takeWhile (\<lambda>c. c \<noteq> CHR ''.'') (rev (lastPortion p))) \<subseteq> set (lastPortion p)"
    using set_takeWhileD by fastforce
  then show ?thesis
    using lastPortion_no_slash [of p] by (auto simp: extname_def Let_def)
qed

lemma uploadFileLocally_same_extension:
  "extname otherName = extname fileName \<Longrightarrow>
   uploadFileLocally process fs fileBuffer otherName userId kind =
   uploadFileLocally process fs fileBuffer fileName userId kind"
  by (simp add: uploadFileLocally_def uniqueFileName_def Let_def)

text \<open>
  Claim C9. The storage name of an upload is the user id, the timestamp, the random
  suffix in hexadecimal and the extension of the uploaded file name, in this order, with
  underscores after the id and the timestamp. Under this name, in the directory of the
  kind of the upload, the bytes are stored (when the file system takes the write), no
  other file is touched, and the public URL that is returned ends in the same name; when
  the file system refuses the write, no file is stored and no URL returned. An accepted
  photo of the upload route is stored under the name made of the token's user id and the
  extension of the file's name. The uploaded file name enters through its extension only:
  the extension has no slash in it, another file name with the same extension gives the
  same storage name, URL and file system, and the storage name is the uploaded file name
  only if the upload is itself named by the id, the timestamp and the random suffix of
  this call.
\<close>

theorem storage_name_composition:
  fixes process :: Process and fs :: FileSystem and fileBuffer :: "nat list"
    and fileName userId otherName :: string and kind :: FileKind
  defines "typeDir \<equiv> (if kind = resume then ''resumes'' else ''photos'')"
    and "unique \<equiv> uniqueFileName process fileName userId"
    and "composed \<equiv> userId @ ''_'' @ numberToString (now process) @ ''_'' @
                      toHex (randomBytes process) @ extname fileName"
    and "result \<equiv> uploadFileLocally process fs fileBuffer fileName userId kind"
  defines "filePath \<equiv> pathJoin [UPLOAD_BASE_DIR process, typeDir, composed]"
  shows
    "unique = composed
     \<and> (filePath \<notin> refused fs \<longrightarrow>
          fst result = Some (''/uploads/'' @ typeDir @ ''/'' @ composed)
          \<and> files (snd result) filePath = Some fileBuffer
          \<and> (\<forall>other. other \<noteq> filePath \<longrightarrow> files (snd result) other = files fs other))
     \<and> (filePath \<in> refused fs \<longrightarrow> fst result = None \<and> files (snd result) = files fs)
     \<and> (\<forall>services request accessToken owner file.
          cookies request ''accessToken'' = Some accessToken \<and> accessToken \<noteq> []
          \<and> verifyAccessToken services accessToken = Some (Some owner) \<and> owner \<noteq> []
          \<and> canUploadMorePhotos services owner = Some True
          \<and> formPhoto request = Some (Some file)
          \<and> type file \<in> set ALLOWED_TYPES
          \<and> fileSize file \<le> MAX_FILE_SIZE
          \<and> pathJoin [UPLOAD_BASE_DIR process, ''photos'',
                owner @ ''_'' @ numberToString (now process) @ ''_'' @
                  toHex (randomBytes process) @ extname (name file)] \<notin> refused fs
          \<longrightarrow> files (snd (POST_photo services process fs request))
                (pathJoin [UPLOAD_BASE_DIR process, ''photos'',
                   owner @ ''_'' @ numberToString (now process) @ ''_'' @
                     toHex (randomBytes process) @ extname (name file)]) =
              Some (content file))
     \<and> CHR ''/'' \<notin> set (extname fileName)
     \<and> (extname otherName = extname fileName \<longrightarrow>
          uniqueFileName process otherName userId = unique
          \<and> uploadFileLocally process fs fileBuffer otherName userId kind = result)
     \<and> (unique = fileName \<longrightarrow> fileName = composed)"
proof -
  have name: "uniqueFileName process f u =
      u @ ''_'' @ numberToString (now process) @ ''_'' @ toHex (randomBytes process) @ extname f"
    for f u
    by (simp add: uniqueFileName_def Let_def)
  have written: "fst result = Some (''/uploads/'' @ typeDir @ ''/'' @ composed)
      \<and> files (snd result) filePath = Some fileBuffer
      \<and> (\<forall>other. other \<noteq> filePath \<longrightarrow> files (snd result) other = files fs other)"
    if "filePath \<notin> refused fs"
    using that
      uploadFileLocally_written [where process = process and kind = kind
        and fileName = fileName and userId = userId and fs = fs and fileBuffer = fileBuffer]
    unfolding filePath_def result_def typeDir_def composed_def name [symmetric]
    by simp
  have refused: "fst result = None \<and> files (snd result) = files fs"
    if "filePath \<in> refused fs"
    using that
      uploadFileLocally_refused [where process = process and kind = kind
        and fileName = fileName and userId = userId and fs = fs and fileBuffer = fileBuffer]
    unfolding filePath_def result_def typeDir_def composed_def name [symmetric]
    by (simp add: files_ensureUploadDirs)
  have route: "files (snd (POST_photo services process fs request))
        (pathJoin [UPLOAD_BASE_DIR process, ''photos'',
           owner @ ''_'' @ numberToString (now process) @ ''_'' @
             toHex (randomBytes process) @ extname (name upload)]) =
      Some (content upload)"
    if "cookies request ''accessToken'' = Some accessToken \<and> accessToken \<noteq> []
          \<and> verifyAccessToken services accessToken = Some (Some owner) \<and> owner \<noteq> []
          \<and> canUploadMorePhotos services owner = Some True
          \<and> formPhoto request = Some (Some upload)
          \<and> type upload \<in> set ALLOWED_TYPES
          \<and> fileSize upload \<le> MAX_FILE_SIZE
          \<and> pathJoin [UPLOAD_BASE_DIR process, ''photos'',
                owner @ ''_'' @ numberToString (now process) @ ''_'' @
                  toHex (randomBytes process) @ extname (name upload)] \<notin> refused fs"
    for services request accessToken owner upload
    using that
      accepted_photo_stored_as_uploaded [where request = request and services = services
        and accessToken = accessToken and userId = owner and upload = upload
        and process = process and fs = fs]
    unfolding name [symmetric]
    by simp
  have same: "uniqueFileName process otherName userId = unique
      \<and> uploadFileLocally process fs fileBuffer otherName userId kind = result"
    if "extname otherName = extname fileName"
    using that uploadFileLocally_same_extension [of otherName fileName process fs fileBuffer
        userId kind]
    by (simp add: unique_def result_def uniqueFileName_def Let_def)
  have "unique = composed"
    by (simp add: unique_def composed_def name)
  with written refused route same show ?thesis
    using extname_no_slash [of fileName] by blast
qed

lemma extname_examples:
  "extname ''me.png'' = ''.png''" "extname ''../../etc/me.png'' = ''.png''"
  by (simp_all add: extname_def lastPortion_def Let_def)

theorem storage_name_composition_witness:
  "uniqueFileName (serverProcess None) ''../../etc/me.png'' ''u1'' = ''u1_1700000000000_0123456789abcdef.png''
   \<and> fst (uploadFileLocally (serverProcess None) emptyFileSystem [137, 80, 78, 71]
       ''../../etc/me.png'' ''u1'' photo) =
     Some ''/uploads/photos/u1_1700000000000_0123456789abcdef.png''
   \<and> files (snd (uploadFileLocally (serverProcess None) emptyFileSystem [137, 80, 78, 71]
       ''../../etc/me.png'' ''u1'' photo)) ''/app/public/uploads/photos/u1_1700000000000_0123456789abcdef.png'' = Some [137, 80, 78, 71]
   \<and> uploadFileLocally (serverProcess None) emptyFileSystem [137, 80, 78, 71]
       ''me.png'' ''u1'' photo =
     uploadFileLocally (serverProcess None) emptyFileSystem [137, 80, 78, 71]
       ''../../etc/me.png'' ''u1'' photo"
  using storage_name_composition [where process = "serverProcess None"
      and fs = emptyFileSystem and fileBuffer = "[137, 80, 78, 71]"
      and fileName = "''../../etc/me.png''" and userId = "''u1''" and kind = photo
      and otherName = "''me.png''"]
  by (simp add: extname_examples serverProcess_paths emptyFileSystem_def
      uniqueFileName_def Let_def serverProcess_reads toHex_def hexByte_def
      numberToString_def digitsOf.simps)

section \<open>The signing secret in the login route\<close>

lemma status_errorResponse: "status (errorResponse m c) = c"
  by (simp add: errorResponse_def NextResponse_json_def)

lemma status_loginSuccessful: "status (loginSuccessful process user a r) = 200"
  by (simp add: loginSuccessful_def Let_def cookies_set_def NextResponse_json_def)

lemma loginSuccessful_not_error:
  "c \<noteq> 200 \<Longrightarrow> loginSuccessful process user a r \<noteq> errorResponse m c"
proof
  assume "c \<noteq> 200" and "loginSuccessful process user a r = errorResponse m c"
  then have "status (loginSuccessful process user a r) = status (errorResponse m c)"
    by simp
  with \<open>c \<noteq> 200\<close> show False
    by (simp add: status_loginSuccessful status_errorResponse)
qed

lemma POST_login_without_secret:
  assumes "jsonBody request = Some loginRequest"
    and "truthy (email loginRequest)" and "truthy (password loginRequest)"
    and "\<not> truthy (JWT_SECRET process)"
  shows "POST_login services process request = configurationError"
proof -
  obtain e p where "email loginRequest = Some e" "e \<noteq> []"
    "password loginRequest = Some p" "p \<noteq> []"
    using assms(2,3) by (auto simp: truthy_def split: option.splits)
  with assms(1,4) show ?thesis
    by (simp add: POST_login_def)
qed

lemma POST_login_responses:
  assumes "P (errorResponse ''Internal server error'' 500)"
    and "P emailAndPasswordRequired"
    and "\<not> truthy (JWT_SECRET process) \<Longrightarrow> P configurationError"
    and "P (errorResponse ''Invalid credentials'' 401)"
    and "P (errorResponse ''Account is deactivated'' 403)"
    and "\<And>user a r. P (loginSuccessful process user a r)"
  shows "P (POST_login services process request)"
  unfolding POST_login_def using assms by (simp split: option.split)

lemma POST_login_with_secret:
  assumes "truthy (JWT_SECRET process)"
  shows "POST_login services process request \<noteq> configurationError"
proof (rule POST_login_responses)
  show "errorResponse ''Internal server error'' 500 \<noteq> configurationError"
    by (simp add: configurationError_def errorResponse_eq)
  show "emailAndPasswordRequired \<noteq> configurationError"
    by (simp add: configurationError_def emailAndPasswordRequired_def errorResponse_eq)
  show "configurationError \<noteq> configurationError" if "\<not> truthy (JWT_SECRET process)"
    using that assms by simp
  show "errorResponse ''Invalid credentials'' 401 \<noteq> configurationError"
    by (simp add: configurationError_def errorResponse_eq)
  show "errorResponse ''Account is deactivated'' 403 \<noteq> configurationError"
    by (simp add: configurationError_def errorResponse_eq)
  show "loginSuccessful process user a r \<noteq> configurationError" for user a r
    by (simp add: configurationError_def loginSuccessful_not_error)
qed

text \<open>
  Claim C2, as amended. The login route checks the signing secret on each request: a
  request whose body has an email and a password, when \<open>JWT_SECRET\<close> is unset or empty, is
  answered with status 500 and the error
  \<open>Server configuration error. Please contact administrator.\<close>; the route looks at nothing
  but the presence of the secret, so with any secret that is not empty, however short, it
  never gives this answer.
\<close>

theorem missing_secret_answered_per_request:
  "(\<forall>loginRequest. jsonBody request = Some loginRequest
        \<and> truthy (email loginRequest) \<and> truthy (password loginRequest)
        \<and> \<not> truthy (JWT_SECRET process)
      \<longrightarrow> POST_login services process request = configurationError)
   \<and> (truthy (JWT_SECRET process) \<longrightarrow>
        POST_login services process request \<noteq> configurationError)
   \<and> status configurationError = 500"
  using POST_login_without_secret [of request _ process services]
    POST_login_with_secret [of process services request]
  by (auto simp: configurationError_def status_errorResponse)

theorem missing_secret_answered_per_request_witness:
  "POST_login loginServices (serverProcess None) loginOfAda = configurationError
   \<and> POST_login loginServices (serverProcess (Some ''short'')) loginOfAda \<noteq> configurationError"
  using
    missing_secret_answered_per_request [where request = loginOfAda
      and process = "serverProcess None" and services = loginServices]
    missing_secret_answered_per_request [where request = loginOfAda
      and process = "serverProcess (Some ''short'')" and services = loginServices]
  by (simp add: loginOfAda_def serverProcess_def truthy_def)

text \<open>
  Claim C2 as stated fails on the login route: with no \<open>JWT_SECRET\<close> the process serves
  the request, and a login with email and password is answered with status 500.
\<close>

theorem login_without_secret_gets_500:
  "JWT_SECRET (serverProcess None) = None
   \<and> POST_login loginServices (serverProcess None) loginOfAda =
       errorResponse ''Server configuration error. Please contact administrator.'' 500
   \<and> status (POST_login loginServices (serverProcess None) loginOfAda) = 500"
  by (simp add: POST_login_def loginOfAda_def serverProcess_def truthy_def
      configurationError_def errorResponse_def NextResponse_json_def)

end
